theory Spec2Isabelle
  imports Complex_Main
begin

section \<open>BudgetOverview: data model\<close>

text \<open>
  The component \<^verbatim>\<open>BudgetOverview\<close> (src/components/Budget/BudgetOverview.tsx) reads
  budgets, debts and bills from a reactive store and computes totals from them.

  Numbers. The source computes with JavaScript numbers. The model takes every finite
  number as an exact rational (\<^typ>\<open>rat\<close>): the decimal constants \<^verbatim>\<open>4.33\<close> and
  \<^verbatim>\<open>30.44\<close> are the rationals 433/100 and 3044/100, and sums, products and quotients
  are exact. Rounding of IEEE doubles, NaN and the infinities are outside the model.
  \<^verbatim>\<open>Date.getTime()\<close> is an integer number of milliseconds.

  Records of the store. The types \<^verbatim>\<open>Budget\<close>, \<^verbatim>\<open>Bill\<close>, \<^verbatim>\<open>Debt\<close> and the budget
  categories are declared outside this file; the records below carry the fields the
  component reads. The fields \<^verbatim>\<open>id\<close> and \<^verbatim>\<open>name\<close> carry the name of their record as
  a prefix, since record fields share one name space. A budget's \<^verbatim>\<open>id\<close> is a string:
  the source compares it with \<^verbatim>\<open>===\<close> to the value of a select element.
  \<^verbatim>\<open>frequency\<close> is kept a string, since the source switches on it with a
  \<^verbatim>\<open>default\<close> branch. \<^verbatim>\<open>useLiveQuery\<close> yields \<^verbatim>\<open>undefined\<close> until the query has
  answered, so each collection is a \<^typ>\<open>'a list option\<close>.
\<close>

record budget =
  budget_id :: string
  budget_name :: string

record debt =
  currentBalance :: rat

record bill =
  bill_id :: string
  bill_name :: string
  amount :: rat
  frequency :: string

text \<open>
  A category as the component sees it after the cast to
  \<^verbatim>\<open>PeriodAdjustedBudgetCategory\<close>: \<^verbatim>\<open>periodAllocatedAmount\<close> may be missing
  (\<^verbatim>\<open>undefined\<close>), which is \<^term>\<open>None\<close>.
\<close>

record category =
  category_id :: string
  category_name :: string
  allocatedAmount :: rat
  spentAmount :: rat
  periodAllocatedAmount :: "rat option"

text \<open>
  The period returned by \<^verbatim>\<open>getCurrentMonthlyPeriod\<close>, each date as its
  \<^verbatim>\<open>getTime()\<close> value in milliseconds.
\<close>

record period =
  startDate :: int
  endDate :: int

text \<open>
  \<^verbatim>\<open>getCurrentMonthlyPeriod\<close> lives in \<^verbatim>\<open>utils/dateUtils\<close>, outside this file, and may
  throw. Its outcome at the call is a parameter of the model: \<^term>\<open>Inl e\<close> when the
  call throws, \<^term>\<open>Inr p\<close> when it returns the period \<open>p\<close>.
\<close>

datatype error = PeriodError

type_synonym period_result = "error + period"

section \<open>JavaScript operators on numbers\<close>

text \<open>
  \<^verbatim>\<open>a || b\<close> is \<open>a\<close> when \<open>a\<close> is truthy and \<open>b\<close> otherwise. A missing value
  (\<^verbatim>\<open>undefined\<close>) is falsy; a finite number is falsy exactly when it is zero.
\<close>

definition js_or :: "rat option \<Rightarrow> rat \<Rightarrow> rat" where
  "js_or a b = (case a of None \<Rightarrow> b | Some x \<Rightarrow> if x \<noteq> 0 then x else b)"

text \<open>
  Every division of the component but one has a constant, non-zero divisor. The
  percentage of a category divides by a value of the data, and a JavaScript division by
  zero does not throw: it yields \<^verbatim>\<open>Infinity\<close>, \<^verbatim>\<open>-Infinity\<close> or \<^verbatim>\<open>NaN\<close>. The result
  of that computation is therefore a \<open>jsnum\<close>, with the operators applied to it
  (\<^verbatim>\<open>* 100\<close>, \<^verbatim>\<open>> 100\<close>, \<^verbatim>\<open>Math.min(_, 100)\<close>) defined on all four shapes.
\<close>

datatype jsnum = Finite rat | PosInfinity | NegInfinity | NaN

definition js_divide :: "rat \<Rightarrow> rat \<Rightarrow> jsnum" where
  "js_divide x y =
     (if y \<noteq> 0 then Finite (x / y)
      else if x > 0 then PosInfinity
      else if x < 0 then NegInfinity
      else NaN)"

fun js_times :: "jsnum \<Rightarrow> rat \<Rightarrow> jsnum" where
  "js_times (Finite q) r = Finite (q * r)"
| "js_times PosInfinity r = (if r > 0 then PosInfinity else if r < 0 then NegInfinity else NaN)"
| "js_times NegInfinity r = (if r > 0 then NegInfinity else if r < 0 then PosInfinity else NaN)"
| "js_times NaN r = NaN"

fun js_greater :: "jsnum \<Rightarrow> rat \<Rightarrow> bool" where
  "js_greater (Finite q) r = (q > r)"
| "js_greater PosInfinity r = True"
| "js_greater NegInfinity r = False"
| "js_greater NaN r = False"

fun js_min :: "jsnum \<Rightarrow> rat \<Rightarrow> jsnum" where
  "js_min (Finite q) r = Finite (min q r)"
| "js_min PosInfinity r = Finite r"
| "js_min NegInfinity r = NegInfinity"
| "js_min NaN r = NaN"

section \<open>Debt and bill totals\<close>

text \<open>
  \<^verbatim>\<open>debts?.reduce((sum, debt) => sum + debt.currentBalance, 0) || 0\<close>
\<close>

definition calculateTotalDebt :: "debt list option \<Rightarrow> rat" where
  "calculateTotalDebt debts =
     js_or (map_option (foldl (\<lambda>sum debt. sum + currentBalance debt) 0) debts) 0"

text \<open>The \<^verbatim>\<open>switch (bill.frequency)\<close> inside the reducer of the \<^verbatim>\<open>try\<close> branch.\<close>

definition monthlyAmount :: "bill \<Rightarrow> rat" where
  "monthlyAmount b =
     (if frequency b = ''monthly'' then amount b
      else if frequency b = ''weekly'' then amount b * 4.33
      else if frequency b = ''quarterly'' then amount b / 3
      else if frequency b = ''yearly'' then amount b / 12
      else 0)"

text \<open>The reducer of the \<^verbatim>\<open>catch\<close> branch, which returns from inside its own switch
  (the accumulator \<^verbatim>\<open>sum\<close> is \<open>acc\<close> here).\<close>

definition fallbackReducer :: "rat \<Rightarrow> bill \<Rightarrow> rat" where
  "fallbackReducer acc b =
     (if frequency b = ''monthly'' then acc + amount b
      else if frequency b = ''weekly'' then acc + (amount b * 4.33)
      else if frequency b = ''quarterly'' then acc + (amount b / 3)
      else if frequency b = ''yearly'' then acc + (amount b / 12)
      else acc)"

definition calculateBillsForCurrentPeriod :: "bill list option \<Rightarrow> period_result \<Rightarrow> rat" where
  "calculateBillsForCurrentPeriod bills periodResult =
     (case bills of
        None \<Rightarrow> 0
      | Some bs \<Rightarrow>
          if length bs = 0 then 0
          else (case periodResult of
                  Inr p \<Rightarrow>
                    (let periodDays = of_int \<lceil>(of_int (endDate p - startDate p) :: rat)
                                                / (1000 * 60 * 60 * 24)\<rceil> + 1;
                         averageMonthDays = 30.44;
                         periodRatio = periodDays / averageMonthDays
                     in foldl (\<lambda>sum b. sum + (monthlyAmount b * periodRatio)) 0 bs)
                | Inl err \<Rightarrow> foldl fallbackReducer 0 bs))"

section \<open>The per-bill display list\<close>

text \<open>
  The body of \<^verbatim>\<open>bills.slice(0, 5).map(bill => ...)\<close>: its own copy of the proration,
  with \<^verbatim>\<open>default: monthlyAmount = bill.amount\<close>, and \<^verbatim>\<open>bill.amount\<close> in the
  \<^verbatim>\<open>catch\<close> branch.
\<close>

definition periodAmount :: "period_result \<Rightarrow> bill \<Rightarrow> rat" where
  "periodAmount periodResult b =
     (case periodResult of
        Inr p \<Rightarrow>
          (let periodDays = of_int \<lceil>(of_int (endDate p - startDate p) :: rat)
                                      / (1000 * 60 * 60 * 24)\<rceil> + 1;
               averageMonthDays = 30.44;
               periodRatio = periodDays / averageMonthDays;
               monthlyAmount =
                 (if frequency b = ''monthly'' then amount b
                  else if frequency b = ''weekly'' then amount b * 4.33
                  else if frequency b = ''quarterly'' then amount b / 3
                  else if frequency b = ''yearly'' then amount b / 12
                  else amount b)
           in monthlyAmount * periodRatio)
      | Inl err \<Rightarrow> amount b)"

text \<open>
  The rows of the list where the section is rendered (a budget is selected), one per
  bill among the first five, as the pair of the name and the amount shown; no row is
  rendered when \<^verbatim>\<open>bills\<close> is missing or empty.
\<close>

definition billRows :: "bill list option \<Rightarrow> period_result \<Rightarrow> (string \<times> rat) list" where
  "billRows bills periodResult =
     (case bills of
        None \<Rightarrow> []
      | Some bs \<Rightarrow>
          if length bs > 0
          then map (\<lambda>b. (bill_name b, periodAmount periodResult b)) (take 5 bs)
          else [])"

section \<open>Category progress\<close>

text \<open>
  \<^verbatim>\<open>const budgetAmount = category.periodAllocatedAmount || category.allocatedAmount\<close>
\<close>

definition budgetAmount :: "category \<Rightarrow> rat" where
  "budgetAmount c = js_or (periodAllocatedAmount c) (allocatedAmount c)"

definition percentage :: "category \<Rightarrow> jsnum" where
  "percentage c =
     (if budgetAmount c > 0
      then js_times (js_divide (spentAmount c) (budgetAmount c)) 100
      else Finite 0)"

definition isOverBudget :: "category \<Rightarrow> bool" where
  "isOverBudget c = js_greater (percentage c) 100"

text \<open>\<^verbatim>\<open>Math.min(percentage, 100)\<close>, the width of the bar in percent.\<close>

definition barWidth :: "category \<Rightarrow> jsnum" where
  "barWidth c = js_min (percentage c) 100"

section \<open>Selection state\<close>

text \<open>
  The local state of the component. \<^verbatim>\<open>selectedBudget\<close> is \<^verbatim>\<open>Budget | null\<close>; an
  object is always truthy, so \<^verbatim>\<open>!selectedBudget\<close> holds exactly for \<^verbatim>\<open>null\<close>.
\<close>

record component_state =
  selectedBudget :: "budget option"
  currentPeriodInfo :: string

text \<open>
  The effect that runs when \<^verbatim>\<open>budgets\<close> or \<^verbatim>\<open>selectedBudget\<close> changes:
  \<^verbatim>\<open>if (budgets && budgets.length > 0 && !selectedBudget) setSelectedBudget(budgets[0])\<close>.
\<close>

definition autoSelectEffect :: "budget list option \<Rightarrow> component_state \<Rightarrow> component_state" where
  "autoSelectEffect budgets st =
     (case budgets of
        None \<Rightarrow> st
      | Some bs \<Rightarrow>
          if length bs > 0 \<and> selectedBudget st = None
          then st\<lparr>selectedBudget := Some (bs ! 0)\<rparr>
          else st)"

text \<open>
  The \<^verbatim>\<open>onChange\<close> handler of the select element, which is rendered only when
  \<^verbatim>\<open>budgets\<close> is a non-empty list: \<^verbatim>\<open>budgets.find(b => b.id === value)\<close>, then
  \<^verbatim>\<open>setSelectedBudget(budget || null)\<close>.
\<close>

definition onChange :: "budget list \<Rightarrow> string \<Rightarrow> component_state \<Rightarrow> component_state" where
  "onChange budgets v st = st\<lparr>selectedBudget := find (\<lambda>b. budget_id b = v) budgets\<rparr>"

section \<open>Reductions as sums\<close>

text \<open>
  \<^verbatim>\<open>reduce\<close> walks the array from the left with an accumulator; over exact numbers
  the result is the start value plus the sum of the contributions.
\<close>

lemma foldl_plus_sum_list:
  "foldl (\<lambda>acc x. acc + f x) a xs = a + (\<Sum>x\<leftarrow>xs. f x)"
  for a :: rat
  by (induction xs arbitrary: a) (simp_all add: add.assoc)

lemma fallbackReducer_monthlyAmount: "fallbackReducer acc b = acc + monthlyAmount b"
  by (simp add: fallbackReducer_def monthlyAmount_def)

lemma foldl_fallbackReducer:
  "foldl fallbackReducer a bs = a + (\<Sum>b\<leftarrow>bs. monthlyAmount b)"
  by (induction bs arbitrary: a) (simp_all add: fallbackReducer_monthlyAmount add.assoc)

lemma total_when_period_known:
  "calculateBillsForCurrentPeriod (Some bs) (Inr p) =
     (\<Sum>b\<leftarrow>bs. monthlyAmount b *
        ((of_int \<lceil>(of_int (endDate p - startDate p) :: rat) / 86400000\<rceil> + 1) / 30.44))"
proof -
  define r :: rat
    where "r = (of_int \<lceil>(of_int (endDate p - startDate p) :: rat) / 86400000\<rceil> + 1) / 30.44"
  have ms: "(1000 * 60 * 60 * 24 :: rat) = 86400000"
    by simp
  have "calculateBillsForCurrentPeriod (Some bs) (Inr p) =
          (if length bs = 0 then 0 else foldl (\<lambda>acc b. acc + monthlyAmount b * r) 0 bs)"
    unfolding calculateBillsForCurrentPeriod_def Let_def r_def ms by simp
  also have "\<dots> = (\<Sum>b\<leftarrow>bs. monthlyAmount b * r)"
    unfolding foldl_plus_sum_list by simp
  finally show ?thesis
    unfolding r_def .
qed

lemma total_when_period_throws:
  "calculateBillsForCurrentPeriod (Some bs) (Inl e) = (\<Sum>b\<leftarrow>bs. monthlyAmount b)"
proof -
  have "calculateBillsForCurrentPeriod (Some bs) (Inl e) =
          (if length bs = 0 then 0 else foldl fallbackReducer 0 bs)"
    by (simp add: calculateBillsForCurrentPeriod_def)
  also have "\<dots> = (\<Sum>b\<leftarrow>bs. monthlyAmount b)"
    by (simp add: foldl_fallbackReducer)
  finally show ?thesis .
qed

lemma periodAmount_when_period_known:
  "periodAmount (Inr p) b =
     (if frequency b = ''monthly'' then amount b
      else if frequency b = ''weekly'' then amount b * 4.33
      else if frequency b = ''quarterly'' then amount b / 3
      else if frequency b = ''yearly'' then amount b / 12
      else amount b) *
     ((of_int \<lceil>(of_int (endDate p - startDate p) :: rat) / 86400000\<rceil> + 1) / 30.44)"
proof -
  have ms: "(1000 * 60 * 60 * 24 :: rat) = 86400000"
    by simp
  show ?thesis
    unfolding periodAmount_def Let_def ms by simp
qed

lemma known_frequency_amounts_agree:
  assumes "frequency b \<in> {''monthly'', ''weekly'', ''quarterly'', ''yearly''}"
  shows "(if frequency b = ''monthly'' then amount b
      else if frequency b = ''weekly'' then amount b * 4.33
      else if frequency b = ''quarterly'' then amount b / 3
      else if frequency b = ''yearly'' then amount b / 12
      else amount b) = monthlyAmount b"
proof -
  from assms have "frequency b = ''monthly'' \<or> frequency b = ''weekly''
      \<or> frequency b = ''quarterly'' \<or> frequency b = ''yearly''"
    by simp
  then show ?thesis
    by (elim disjE) (simp_all add: monthlyAmount_def)
qed

lemma monthlyAmount_eq_amount_iff:
  "monthlyAmount b = amount b \<longleftrightarrow> frequency b = ''monthly'' \<or> amount b = 0"
  by (auto simp add: monthlyAmount_def)

lemma billRows_when_period_throws:
  "billRows (Some bs) (Inl e) = map (\<lambda>b. (bill_name b, amount b)) (take 5 bs)"
  by (simp add: billRows_def periodAmount_def)

text \<open>\<^verbatim>\<open>find\<close> returns the first element that satisfies the test, if there is one.\<close>

lemma find_Some_member: "find P xs = Some x \<Longrightarrow> x \<in> set xs \<and> P x"
  by (induction xs) (simp_all split: if_splits)

lemma find_None_no_member: "find P xs = None \<longleftrightarrow> (\<forall>x \<in> set xs. \<not> P x)"
  by (induction xs) simp_all

section \<open>Proration of bills over the current period\<close>

text \<open>
  C1. When the period computation succeeds, the day count of the period is
  \<open>ceil((endDate - startDate) in days) + 1\<close>, the ratio is that count divided by 30.44,
  and the total is the sum over the bills of the monthly equivalent times the ratio. In
  particular one weekly bill of 100 over a period of 7 days gives \<open>433 * (7 / 30.44)\<close>,
  which is 99.6 to one decimal place.
\<close>

theorem period_total_formula:
  "calculateBillsForCurrentPeriod (Some bills) (Inr p) =
     (\<Sum>b\<leftarrow>bills. monthlyAmount b *
        ((of_int \<lceil>(of_int (endDate p - startDate p) :: rat) / 86400000\<rceil> + 1) / 30.44))
   \<and> (\<lceil>(of_int (endDate p - startDate p) :: rat) / 86400000\<rceil> + 1 = 7
        \<and> frequency b = ''weekly'' \<and> amount b = 100
      \<longrightarrow> calculateBillsForCurrentPeriod (Some [b]) (Inr p) = 433 * (7 / 30.44)
          \<and> 99.55 \<le> calculateBillsForCurrentPeriod (Some [b]) (Inr p)
          \<and> calculateBillsForCurrentPeriod (Some [b]) (Inr p) < 99.65)"
proof (intro conjI impI)
  show "calculateBillsForCurrentPeriod (Some bills) (Inr p) =
     (\<Sum>b\<leftarrow>bills. monthlyAmount b *
        ((of_int \<lceil>(of_int (endDate p - startDate p) :: rat) / 86400000\<rceil> + 1) / 30.44))"
    by (rule total_when_period_known)
next
  assume h: "\<lceil>(of_int (endDate p - startDate p) :: rat) / 86400000\<rceil> + 1 = 7
        \<and> frequency b = ''weekly'' \<and> amount b = 100"
  then have d: "(of_int \<lceil>(of_int (endDate p - startDate p) :: rat) / 86400000\<rceil> + 1 :: rat) = 7"
    by (metis of_int_1 of_int_add of_int_numeral)
  from h have m: "monthlyAmount b = 433"
    by (simp add: monthlyAmount_def)
  have v: "calculateBillsForCurrentPeriod (Some [b]) (Inr p) = 433 * (7 / 30.44)"
    unfolding total_when_period_known d using m by simp
  show "calculateBillsForCurrentPeriod (Some [b]) (Inr p) = 433 * (7 / 30.44)"
    by (rule v)
  show "99.55 \<le> calculateBillsForCurrentPeriod (Some [b]) (Inr p)"
    unfolding v by simp
  show "calculateBillsForCurrentPeriod (Some [b]) (Inr p) < 99.65"
    unfolding v by simp
qed

theorem period_total_formula_witness:
  "calculateBillsForCurrentPeriod
     (Some [\<lparr>bill_id = ''b1'', bill_name = ''gym'', amount = 100, frequency = ''weekly''\<rparr>])
     (Inr \<lparr>startDate = 0, endDate = 518400000\<rparr>) = 433 * (7 / 30.44)
   \<and> \<lceil>(of_int (endDate \<lparr>startDate = 0, endDate = 518400000\<rparr>
               - startDate \<lparr>startDate = 0, endDate = 518400000\<rparr>) :: rat) / 86400000\<rceil> + 1 = 7"
  using period_total_formula
    [of "[\<lparr>bill_id = ''b1'', bill_name = ''gym'', amount = 100, frequency = ''weekly''\<rparr>]"
        "\<lparr>startDate = 0, endDate = 518400000\<rparr>"
        "\<lparr>bill_id = ''b1'', bill_name = ''gym'', amount = 100, frequency = ''weekly''\<rparr>"]
  by simp

text \<open>
  C2. The monthly equivalent of a bill in the aggregate calculation is the amount for
  \<open>monthly\<close>, the amount times 4.33 for \<open>weekly\<close>, a third of it for \<open>quarterly\<close>, a
  twelfth of it for \<open>yearly\<close> and 0 for every other frequency; the reducer of the
  fallback branch adds the same value.
\<close>

theorem monthly_equivalent_by_frequency:
  "(frequency b = ''monthly'' \<longrightarrow> monthlyAmount b = amount b)
   \<and> (frequency b = ''weekly'' \<longrightarrow> monthlyAmount b = amount b * 4.33)
   \<and> (frequency b = ''quarterly'' \<longrightarrow> monthlyAmount b = amount b / 3)
   \<and> (frequency b = ''yearly'' \<longrightarrow> monthlyAmount b = amount b / 12)
   \<and> (frequency b \<notin> {''monthly'', ''weekly'', ''quarterly'', ''yearly''} \<longrightarrow> monthlyAmount b = 0)
   \<and> fallbackReducer acc b = acc + monthlyAmount b"
  by (simp add: monthlyAmount_def fallbackReducer_def)

theorem monthly_equivalent_by_frequency_witness:
  "monthlyAmount \<lparr>bill_id = ''b1'', bill_name = ''rent'', amount = 900, frequency = ''monthly''\<rparr> = 900
   \<and> monthlyAmount \<lparr>bill_id = ''b2'', bill_name = ''gym'', amount = 100, frequency = ''weekly''\<rparr> = 433
   \<and> monthlyAmount \<lparr>bill_id = ''b3'', bill_name = ''water'', amount = 90, frequency = ''quarterly''\<rparr> = 30
   \<and> monthlyAmount \<lparr>bill_id = ''b4'', bill_name = ''tv'', amount = 120, frequency = ''yearly''\<rparr> = 10
   \<and> monthlyAmount \<lparr>bill_id = ''b5'', bill_name = ''misc'', amount = 50, frequency = ''daily''\<rparr> = 0"
  using monthly_equivalent_by_frequency
      [of "\<lparr>bill_id = ''b1'', bill_name = ''rent'', amount = 900, frequency = ''monthly''\<rparr>"]
    monthly_equivalent_by_frequency
      [of "\<lparr>bill_id = ''b2'', bill_name = ''gym'', amount = 100, frequency = ''weekly''\<rparr>"]
    monthly_equivalent_by_frequency
      [of "\<lparr>bill_id = ''b3'', bill_name = ''water'', amount = 90, frequency = ''quarterly''\<rparr>"]
    monthly_equivalent_by_frequency
      [of "\<lparr>bill_id = ''b4'', bill_name = ''tv'', amount = 120, frequency = ''yearly''\<rparr>"]
    monthly_equivalent_by_frequency
      [of "\<lparr>bill_id = ''b5'', bill_name = ''misc'', amount = 50, frequency = ''daily''\<rparr>"]
  by simp

text \<open>
  C3, as stated: when the period computation throws, the fallback of the aggregate total
  and the fallback of the display list differ for any bill whose frequency is not
  \<open>monthly\<close>. A weekly bill of amount 0 has the fallback 0 in both, so the statement
  fails there.
\<close>

theorem fallbacks_differ_counterexample:
  "\<not> (frequency \<lparr>bill_id = ''b1'', bill_name = ''gym'', amount = 0, frequency = ''weekly''\<rparr>
          \<noteq> ''monthly''
       \<longrightarrow> calculateBillsForCurrentPeriod
             (Some [\<lparr>bill_id = ''b1'', bill_name = ''gym'', amount = 0, frequency = ''weekly''\<rparr>])
             (Inl PeriodError)
           \<noteq> periodAmount (Inl PeriodError)
               \<lparr>bill_id = ''b1'', bill_name = ''gym'', amount = 0, frequency = ''weekly''\<rparr>)"
  by (simp add: total_when_period_throws monthlyAmount_def periodAmount_def)

text \<open>
  C3, amended. When the period computation throws, the aggregate total is the sum of
  the unscaled monthly equivalents, each row of the display list (one for each of the
  first five bills) shows the raw amount of its bill, and for a single bill the two
  values differ exactly when its frequency is not \<open>monthly\<close> and its amount is not 0.
\<close>

theorem fallbacks_when_period_throws:
  "calculateBillsForCurrentPeriod (Some bills) (Inl e) = (\<Sum>b\<leftarrow>bills. monthlyAmount b)
   \<and> billRows (Some bills) (Inl e) = map (\<lambda>b. (bill_name b, amount b)) (take 5 bills)
   \<and> (calculateBillsForCurrentPeriod (Some [b]) (Inl e) \<noteq> periodAmount (Inl e) b
        \<longleftrightarrow> frequency b \<noteq> ''monthly'' \<and> amount b \<noteq> 0)"
proof (intro conjI)
  show "calculateBillsForCurrentPeriod (Some bills) (Inl e) = (\<Sum>b\<leftarrow>bills. monthlyAmount b)"
    by (rule total_when_period_throws)
  show "billRows (Some bills) (Inl e) = map (\<lambda>b. (bill_name b, amount b)) (take 5 bills)"
    by (rule billRows_when_period_throws)
  have "calculateBillsForCurrentPeriod (Some [b]) (Inl e) = monthlyAmount b"
    by (simp add: total_when_period_throws)
  moreover have "periodAmount (Inl e) b = amount b"
    by (simp add: periodAmount_def)
  ultimately show "calculateBillsForCurrentPeriod (Some [b]) (Inl e) \<noteq> periodAmount (Inl e) b
        \<longleftrightarrow> frequency b \<noteq> ''monthly'' \<and> amount b \<noteq> 0"
    by (simp add: monthlyAmount_eq_amount_iff)
qed

theorem fallbacks_when_period_throws_witness:
  "calculateBillsForCurrentPeriod
     (Some [\<lparr>bill_id = ''b1'', bill_name = ''gym'', amount = 100, frequency = ''weekly''\<rparr>])
     (Inl PeriodError)
   \<noteq> periodAmount (Inl PeriodError)
       \<lparr>bill_id = ''b1'', bill_name = ''gym'', amount = 100, frequency = ''weekly''\<rparr>"
  using fallbacks_when_period_throws
    [of "[\<lparr>bill_id = ''b1'', bill_name = ''gym'', amount = 100, frequency = ''weekly''\<rparr>]"
        PeriodError
        "\<lparr>bill_id = ''b1'', bill_name = ''gym'', amount = 100, frequency = ''weekly''\<rparr>"]
  by simp

text \<open>
  C6. The aggregate total is 0 when the bills are missing or the list is empty,
  whatever the period computation would do: the function returns before calling it.
\<close>

theorem no_bills_total_zero:
  "calculateBillsForCurrentPeriod None periodResult = 0
   \<and> calculateBillsForCurrentPeriod (Some []) periodResult = 0"
  by (simp add: calculateBillsForCurrentPeriod_def)

text \<open>
  C10. When the period computation succeeds and the frequency of a bill is one of
  \<open>monthly\<close>, \<open>weekly\<close>, \<open>quarterly\<close>, \<open>yearly\<close>, the amount shown for the bill in
  the display list is what the bill adds to the aggregate total.
\<close>

theorem proration_copies_agree:
  assumes "frequency b \<in> {''monthly'', ''weekly'', ''quarterly'', ''yearly''}"
  shows "calculateBillsForCurrentPeriod (Some (bs @ [b])) (Inr p) =
           calculateBillsForCurrentPeriod (Some bs) (Inr p) + periodAmount (Inr p) b"
proof -
  have "periodAmount (Inr p) b = monthlyAmount b *
        ((of_int \<lceil>(of_int (endDate p - startDate p) :: rat) / 86400000\<rceil> + 1) / 30.44)"
    by (simp only: periodAmount_when_period_known known_frequency_amounts_agree [OF assms])
  then show ?thesis
    by (simp only: total_when_period_known map_append sum_list_append list.map sum_list.Cons
          sum_list.Nil add_0_right)
qed

theorem proration_copies_agree_witness:
  "calculateBillsForCurrentPeriod
     (Some ([\<lparr>bill_id = ''b1'', bill_name = ''rent'', amount = 900, frequency = ''monthly''\<rparr>]
            @ [\<lparr>bill_id = ''b2'', bill_name = ''gym'', amount = 100, frequency = ''weekly''\<rparr>]))
     (Inr \<lparr>startDate = 0, endDate = 518400000\<rparr>)
   = calculateBillsForCurrentPeriod
       (Some [\<lparr>bill_id = ''b1'', bill_name = ''rent'', amount = 900, frequency = ''monthly''\<rparr>])
       (Inr \<lparr>startDate = 0, endDate = 518400000\<rparr>)
     + periodAmount (Inr \<lparr>startDate = 0, endDate = 518400000\<rparr>)
         \<lparr>bill_id = ''b2'', bill_name = ''gym'', amount = 100, frequency = ''weekly''\<rparr>"
  using proration_copies_agree
    [of "\<lparr>bill_id = ''b2'', bill_name = ''gym'', amount = 100, frequency = ''weekly''\<rparr>"
        "[\<lparr>bill_id = ''b1'', bill_name = ''rent'', amount = 900, frequency = ''monthly''\<rparr>]"
        "\<lparr>startDate = 0, endDate = 518400000\<rparr>"]
  by simp

section \<open>Debt total\<close>

text \<open>
  C7. The total debt is the sum of \<open>currentBalance\<close> over the debts received from the
  query for active debts, and 0 when that list is empty or missing.
\<close>

theorem total_debt_sum:
  "calculateTotalDebt (Some debts) = (\<Sum>d\<leftarrow>debts. currentBalance d)
   \<and> calculateTotalDebt (Some []) = 0
   \<and> calculateTotalDebt None = 0"
  by (simp add: calculateTotalDebt_def js_or_def foldl_plus_sum_list)

section \<open>Category percentage\<close>

text \<open>
  C4. The claim takes \<open>periodAllocatedAmount\<close> as the budget amount whenever it is
  present, 0 included. The source combines the two fields with \<^verbatim>\<open>||\<close>, for which 0 is
  falsy: a category with \<open>periodAllocatedAmount = 0\<close> and \<open>allocatedAmount = 100\<close> gets
  the budget amount 100, and with 50 spent the percentage 50.
\<close>

theorem budgetAmount_ignores_zero_period_amount:
  "budgetAmount \<lparr>category_id = ''c1'', category_name = ''food'', allocatedAmount = 100,
                 spentAmount = 50, periodAllocatedAmount = Some 0\<rparr> = 100
   \<and> percentage \<lparr>category_id = ''c1'', category_name = ''food'', allocatedAmount = 100,
                 spentAmount = 50, periodAllocatedAmount = Some 0\<rparr> = Finite 50"
  by (simp add: budgetAmount_def percentage_def js_or_def js_divide_def)

text \<open>
  C5. With \<open>q\<close> the value \<open>spentAmount / amount * 100\<close> when the budget amount is
  positive and 0 otherwise, the percentage is the finite number \<open>q\<close> (never an infinity
  or NaN), \<open>isOverBudget\<close> holds exactly when \<open>q > 100\<close>, the bar width is
  \<open>min q 100\<close>, and a budget amount of 0 gives the percentage 0 and no over-budget mark
  whatever was spent.
\<close>

theorem percentage_guarded:
  assumes "q = (if budgetAmount c > 0 then spentAmount c / budgetAmount c * 100 else 0)"
  shows "percentage c = Finite q
   \<and> (isOverBudget c \<longleftrightarrow> q > 100)
   \<and> barWidth c = Finite (min q 100)
   \<and> (budgetAmount c = 0 \<longrightarrow> q = 0 \<and> \<not> isOverBudget c)
   \<and> (periodAllocatedAmount c = None \<and> allocatedAmount c = 0 \<longrightarrow> q = 0 \<and> \<not> isOverBudget c)"
proof -
  have p: "percentage c = Finite q"
    unfolding assms by (simp add: percentage_def js_divide_def)
  have o: "isOverBudget c \<longleftrightarrow> q > 100"
    unfolding isOverBudget_def p by simp
  have w: "barWidth c = Finite (min q 100)"
    unfolding barWidth_def p by simp
  have z: "q = 0 \<and> \<not> isOverBudget c" if "budgetAmount c = 0"
    using that o assms by simp
  have a: "budgetAmount c = 0" if "periodAllocatedAmount c = None \<and> allocatedAmount c = 0"
    using that by (simp add: budgetAmount_def js_or_def)
  from p o w z a show ?thesis
    by blast
qed

theorem percentage_guarded_witness:
  "percentage \<lparr>category_id = ''c1'', category_name = ''food'', allocatedAmount = 0,
                 spentAmount = 50, periodAllocatedAmount = None\<rparr> = Finite 0
   \<and> \<not> isOverBudget \<lparr>category_id = ''c1'', category_name = ''food'', allocatedAmount = 0,
                 spentAmount = 50, periodAllocatedAmount = None\<rparr>
   \<and> percentage \<lparr>category_id = ''c2'', category_name = ''fuel'', allocatedAmount = 100,
                 spentAmount = 150, periodAllocatedAmount = None\<rparr> = Finite 150
   \<and> isOverBudget \<lparr>category_id = ''c2'', category_name = ''fuel'', allocatedAmount = 100,
                 spentAmount = 150, periodAllocatedAmount = None\<rparr>
   \<and> barWidth \<lparr>category_id = ''c2'', category_name = ''fuel'', allocatedAmount = 100,
                 spentAmount = 150, periodAllocatedAmount = None\<rparr> = Finite 100"
proof -
  define c1 where "c1 = \<lparr>category_id = ''c1'', category_name = ''food'', allocatedAmount = 0,
                 spentAmount = 50, periodAllocatedAmount = None\<rparr>"
  define c2 where "c2 = \<lparr>category_id = ''c2'', category_name = ''fuel'', allocatedAmount = 100,
                 spentAmount = 150, periodAllocatedAmount = None\<rparr>"
  have q1: "(0::rat) = (if budgetAmount c1 > 0 then spentAmount c1 / budgetAmount c1 * 100 else 0)"
    by (simp add: c1_def budgetAmount_def js_or_def)
  have q2: "(150::rat) = (if budgetAmount c2 > 0 then spentAmount c2 / budgetAmount c2 * 100 else 0)"
    by (simp add: c2_def budgetAmount_def js_or_def)
  have "percentage c1 = Finite 0 \<and> \<not> isOverBudget c1"
    using percentage_guarded [OF q1] by simp
  moreover have "percentage c2 = Finite 150 \<and> isOverBudget c2 \<and> barWidth c2 = Finite 100"
    using percentage_guarded [OF q2] by simp
  ultimately show ?thesis
    unfolding c1_def c2_def by simp
qed

section \<open>Selecting a budget\<close>

text \<open>
  C8. After the user chooses an identifier, the selection is a budget of the list with
  that identifier when there is one, and \<open>null\<close> when there is none.
\<close>

theorem onChange_selects_matching:
  "((\<exists>b \<in> set budgets. budget_id b = v)
      \<longrightarrow> (\<exists>b. selectedBudget (onChange budgets v st) = Some b
               \<and> b \<in> set budgets \<and> budget_id b = v))
   \<and> ((\<forall>b \<in> set budgets. budget_id b \<noteq> v)
      \<longrightarrow> selectedBudget (onChange budgets v st) = None)"
proof (intro conjI impI)
  assume "\<exists>b \<in> set budgets. budget_id b = v"
  then have "find (\<lambda>b. budget_id b = v) budgets \<noteq> None"
    by (simp add: find_None_no_member)
  then obtain b where f: "find (\<lambda>b. budget_id b = v) budgets = Some b"
    by blast
  from find_Some_member [OF f] have "b \<in> set budgets \<and> budget_id b = v" .
  with f show "\<exists>b. selectedBudget (onChange budgets v st) = Some b
               \<and> b \<in> set budgets \<and> budget_id b = v"
    by (simp add: onChange_def)
next
  assume "\<forall>b \<in> set budgets. budget_id b \<noteq> v"
  then have "find (\<lambda>b. budget_id b = v) budgets = None"
    by (simp add: find_None_no_member)
  then show "selectedBudget (onChange budgets v st) = None"
    by (simp add: onChange_def)
qed

theorem onChange_selects_matching_witness:
  "selectedBudget
     (onChange [\<lparr>budget_id = ''a'', budget_name = ''Home''\<rparr>,
                \<lparr>budget_id = ''b'', budget_name = ''Trip''\<rparr>] ''b''
        \<lparr>selectedBudget = Some \<lparr>budget_id = ''a'', budget_name = ''Home''\<rparr>,
          currentPeriodInfo = ''''\<rparr>)
     = Some \<lparr>budget_id = ''b'', budget_name = ''Trip''\<rparr>
   \<and> selectedBudget
     (onChange [\<lparr>budget_id = ''a'', budget_name = ''Home''\<rparr>,
                \<lparr>budget_id = ''b'', budget_name = ''Trip''\<rparr>] ''zz''
        \<lparr>selectedBudget = Some \<lparr>budget_id = ''a'', budget_name = ''Home''\<rparr>,
          currentPeriodInfo = ''''\<rparr>)
     = None"
proof -
  define bs where "bs = [\<lparr>budget_id = ''a'', budget_name = ''Home''\<rparr>,
                \<lparr>budget_id = ''b'', budget_name = ''Trip''\<rparr>]"
  define st where "st = \<lparr>selectedBudget = Some \<lparr>budget_id = ''a'', budget_name = ''Home''\<rparr>,
          currentPeriodInfo = ''''\<rparr>"
  have h1: "\<exists>b \<in> set bs. budget_id b = ''b''"
    by (simp add: bs_def)
  have h2: "\<forall>b \<in> set bs. budget_id b \<noteq> ''zz''"
    by (simp add: bs_def)
  from onChange_selects_matching [of bs "''b''" st] h1
  obtain x where x: "selectedBudget (onChange bs ''b'' st) = Some x"
      "x \<in> set bs" "budget_id x = ''b''"
    by blast
  from x(2,3) have "x = \<lparr>budget_id = ''b'', budget_name = ''Trip''\<rparr>"
    by (auto simp add: bs_def)
  with x(1) have "selectedBudget (onChange bs ''b'' st)
      = Some \<lparr>budget_id = ''b'', budget_name = ''Trip''\<rparr>"
    by simp
  moreover from onChange_selects_matching [of bs "''zz''" st] h2
  have "selectedBudget (onChange bs ''zz'' st) = None"
    by blast
  ultimately show ?thesis
    unfolding bs_def st_def by simp
qed

text \<open>
  C9. When a non-empty list of budgets arrives and no budget is selected, the effect
  selects the first element of the list; when a budget is selected, the effect leaves
  the state as it is.
\<close>

theorem autoSelect_first:
  "(selectedBudget st = None
      \<longrightarrow> selectedBudget (autoSelectEffect (Some (b # bs)) st) = Some b)
   \<and> (selectedBudget st \<noteq> None \<longrightarrow> autoSelectEffect budgets st = st)"
  by (simp add: autoSelectEffect_def split: option.split)

theorem autoSelect_first_witness:
  "selectedBudget
     (autoSelectEffect
        (Some (\<lparr>budget_id = ''a'', budget_name = ''Home''\<rparr>
               # [\<lparr>budget_id = ''b'', budget_name = ''Trip''\<rparr>]))
        \<lparr>selectedBudget = None, currentPeriodInfo = ''''\<rparr>)
     = Some \<lparr>budget_id = ''a'', budget_name = ''Home''\<rparr>
   \<and> autoSelectEffect
        (Some [\<lparr>budget_id = ''a'', budget_name = ''Home''\<rparr>])
        \<lparr>selectedBudget = Some \<lparr>budget_id = ''b'', budget_name = ''Trip''\<rparr>,
          currentPeriodInfo = ''''\<rparr>
     = \<lparr>selectedBudget = Some \<lparr>budget_id = ''b'', budget_name = ''Trip''\<rparr>,
          currentPeriodInfo = ''''\<rparr>"
  using autoSelect_first
    [of "\<lparr>selectedBudget = None, currentPeriodInfo = ''''\<rparr>"
        "\<lparr>budget_id = ''a'', budget_name = ''Home''\<rparr>"
        "[\<lparr>budget_id = ''b'', budget_name = ''Trip''\<rparr>]"]
    autoSelect_first
    [of "\<lparr>selectedBudget = Some \<lparr>budget_id = ''b'', budget_name = ''Trip''\<rparr>,
          currentPeriodInfo = ''''\<rparr>" _ _
        "Some [\<lparr>budget_id = ''a'', budget_name = ''Home''\<rparr>]"]
  by simp

text \<open>
  The effect depends on \<^verbatim>\<open>selectedBudget\<close>, so it runs again after the handler has
  set the selection to \<open>null\<close>, and then selects the first budget of the list.
\<close>

lemma autoSelect_after_unmatched_choice:
  assumes "\<forall>x \<in> set (b # bs). budget_id x \<noteq> v"
  shows "selectedBudget (autoSelectEffect (Some (b # bs)) (onChange (b # bs) v st)) = Some b"
proof -
  from assms have "find (\<lambda>x. budget_id x = v) (b # bs) = None"
    unfolding find_None_no_member by blast
  then have "selectedBudget (onChange (b # bs) v st) = None"
    by (simp add: onChange_def)
  then show ?thesis
    by (simp add: autoSelectEffect_def)
qed

end
